theory Spec2Isabelle
  imports Main "HOL-Library.Multiset"
begin

section \<open>Browser effects shared by the components\<close>

text \<open>
  Every handler of the frontend is an async function that calls React state setters,
  \<open>fetch\<close>, \<open>alert\<close> and \<open>console.error\<close>. A handler is modelled as the list of effects
  it performs, in program order, as a function of what the network answers. The state
  of a component after the handler is obtained by replaying the setter calls of that
  list. The \<open>console.log\<close> debugging lines are not part of the model.
\<close>

text \<open>A request is its method, its URL and its body; the headers are left out.\<close>

datatype 'b http_request =
  Request (req_method: string) (req_url: string) (req_body: "'b option")

text \<open>
  What \<open>await fetch(...)\<close> and the following \<open>await response.json()\<close> (or \<open>.blob()\<close>)
  can give: the fetch promise rejects, or a response arrives with a status and a body
  that parses (\<open>Some\<close>) or does not (\<open>None\<close>).
\<close>

datatype 'a response = Rejected | Response nat "'a option"

text \<open>\<open>Response.ok\<close> of the Fetch standard: the status is in the range 200 to 299.\<close>

definition ok :: "nat \<Rightarrow> bool" where
  "ok status = (200 \<le> status \<and> status \<le> 299)"

text \<open>The values a \<open>catch (error)\<close> clause can receive in these handlers.\<close>

datatype js_error =
  FetchRejected
| Thrown string
| BodyRejected

text \<open>
  The body of every \<open>try\<close> block starts the same way:
  \<^verbatim>\<open>
  const response = await fetch(...)
  if (!response.ok) { throw new Error(msg) }
  const data = await response.json()
  \<close>
  \<open>awaited msg r\<close> is the value of \<open>data\<close>, or the error that reaches \<open>catch\<close>.
\<close>

fun awaited :: "string \<Rightarrow> 'a response \<Rightarrow> js_error + 'a" where
  "awaited msg Rejected = Inl FetchRejected"
| "awaited msg (Response status body) =
     (if \<not> ok status then Inl (Thrown msg)
      else case body of None \<Rightarrow> Inl BodyRejected | Some data \<Rightarrow> Inr data)"

text \<open>A fetch fails when it rejects or returns a status outside 200 to 299.\<close>

fun failed :: "'a response \<Rightarrow> bool" where
  "failed Rejected = True"
| "failed (Response status body) = (\<not> ok status)"

datatype ('u, 'b) event =
  Fetch "'b http_request"
| Alert string
| ConsoleError string js_error
| SaveAs string
| Set 'u

fun alerts :: "('u, 'b) event list \<Rightarrow> string list" where
  "alerts [] = []"
| "alerts (Alert m # es) = m # alerts es"
| "alerts (e # es) = alerts es"

fun fetches :: "('u, 'b) event list \<Rightarrow> 'b http_request list" where
  "fetches [] = []"
| "fetches (Fetch r # es) = r # fetches es"
| "fetches (e # es) = fetches es"

fun setters :: "('u, 'b) event list \<Rightarrow> 'u list" where
  "setters [] = []"
| "setters (Set u # es) = u # setters es"
| "setters (e # es) = setters es"

text \<open>Replaying the setter calls of a handler on a component state.\<close>

definition run :: "('u \<Rightarrow> 's \<Rightarrow> 's) \<Rightarrow> ('u, 'b) event list \<Rightarrow> 's \<Rightarrow> 's" where
  "run upd es s = foldl (\<lambda>s u. upd u s) s (setters es)"

text \<open>
  An async handler runs up to its \<open>await fetch(...)\<close> when it is called and goes on
  when the response is there: \<open>until_await\<close> is the part of its effects up to and
  including the request, \<open>after_await\<close> the part after it.
\<close>

fun until_await :: "('u, 'b) event list \<Rightarrow> ('u, 'b) event list" where
  "until_await [] = []"
| "until_await (Fetch q # es) = [Fetch q]"
| "until_await (e # es) = e # until_await es"

fun after_await :: "('u, 'b) event list \<Rightarrow> ('u, 'b) event list" where
  "after_await [] = []"
| "after_await (Fetch q # es) = es"
| "after_await (e # es) = after_await es"

definition api :: string where
  "api = ''http://localhost:8000/api''"

definition GET :: "string \<Rightarrow> 'b http_request" where
  "GET url = Request ''GET'' url None"

definition POST :: "string \<Rightarrow> 'b option \<Rightarrow> 'b http_request" where
  "POST url body = Request ''POST'' url body"


section \<open>The wizard page (app/page.tsx)\<close>

datatype field_type = T_string | T_number | T_boolean | T_date | T_email | T_text

text \<open>Field names are prefixed: \<open>id\<close>, \<open>name\<close> and \<open>type\<close> are taken in HOL or by other records.\<close>

record FieldDefinition =
  field_id :: string
  field_name :: string
  field_label :: string
  field_type :: field_type
  field_required :: bool
  field_defaultValue :: "string option"

record Operations =
  op_create :: bool
  op_read :: bool
  op_update :: bool
  op_delete :: bool

text \<open>\<open>fields\<close> is \<open>schemaFields\<close> here: the record package reserves the name.\<close>

record SchemaDefinition =
  entityName :: string
  schemaFields :: "FieldDefinition list"
  operations :: Operations

record GeneratedFiles =
  gf_sql :: "string option"
  gf_schema :: "string option"
  gf_orm :: "string option"
  gf_api :: "string option"
  gf_frontend :: "string option"
  gf_templates :: "string option"
  gf_requirements :: "string option"
  gf_readme :: "string option"

record CodePreview =
  cp_schema :: "string option"
  cp_api :: "string option"

record ValidationResult =
  success :: bool
  errors :: "string list"
  warnings :: "string list"
  generatedFiles :: GeneratedFiles
  projectId :: "string option"
  codePreview :: "CodePreview option"

datatype step = Prompt | Mockup | Report

record Home_state =
  currentStep :: step
  schema :: "SchemaDefinition option"
  validationResult :: "ValidationResult option"
  isGenerating :: bool

text \<open>The four \<open>useState\<close> initial values of \<open>Home\<close>.\<close>

definition Home_init :: Home_state where
  "Home_init = \<lparr>currentStep = Prompt, schema = None, validationResult = None,
     isGenerating = False\<rparr>"

datatype Home_set =
  SetCurrentStep step
| SetSchema "SchemaDefinition option"
| SetValidationResult "ValidationResult option"
| SetIsGenerating bool

fun Home_upd :: "Home_set \<Rightarrow> Home_state \<Rightarrow> Home_state" where
  "Home_upd (SetCurrentStep v) s = s\<lparr>currentStep := v\<rparr>"
| "Home_upd (SetSchema v) s = s\<lparr>schema := v\<rparr>"
| "Home_upd (SetValidationResult v) s = s\<lparr>validationResult := v\<rparr>"
| "Home_upd (SetIsGenerating v) s = s\<lparr>isGenerating := v\<rparr>"

text \<open>
  The \<open>params\<close> argument of \<open>handlePromptSubmit\<close>: typed \<open>any\<close>, taken to be the
  object whose two members the handler reads.
\<close>

record Params =
  params_entityName :: string
  params_operations :: "string list"

text \<open>The objects given to \<open>JSON.stringify\<close> as request bodies.\<close>

datatype payload =
  GenerateSchemaBody string string "string list" string
| RefineSchemaBody SchemaDefinition string string
| GenerateAppBody SchemaDefinition string

type_synonym Home_event = "(Home_set, payload) event"

definition handlePromptSubmit ::
  "string \<Rightarrow> Params \<Rightarrow> SchemaDefinition response \<Rightarrow> Home_event list" where
  "handlePromptSubmit prompt params r =
     [Set (SetIsGenerating True),
      Fetch (POST (api @ ''/generate-schema'')
        (Some (GenerateSchemaBody prompt (params_entityName params)
           (params_operations params) ''gpt-4o-mini'')))] @
     (case awaited ''Failed to generate schema'' r of
        Inr generatedSchema \<Rightarrow>
          [Set (SetSchema (Some generatedSchema)), Set (SetCurrentStep Mockup)]
      | Inl error \<Rightarrow>
          [ConsoleError ''Error generating schema:'' error,
           Alert ''Failed to generate schema. Make sure the backend is running on port 8000.'']) @
     [Set (SetIsGenerating False)]"

definition handleSchemaUpdate :: "SchemaDefinition \<Rightarrow> Home_event list" where
  "handleSchemaUpdate updatedSchema = [Set (SetSchema (Some updatedSchema))]"

text \<open>\<open>handleRegenerate\<close> and \<open>handleConfirm\<close> read \<open>schema\<close> from the state they close over.\<close>

definition handleRegenerate ::
  "string \<Rightarrow> SchemaDefinition response \<Rightarrow> Home_state \<Rightarrow> Home_event list" where
  "handleRegenerate feedback r st =
     (case schema st of
        None \<Rightarrow> []
      | Some sch \<Rightarrow>
          [Set (SetIsGenerating True),
           Fetch (POST (api @ ''/refine-schema'')
             (Some (RefineSchemaBody sch feedback ''gpt-4o-mini'')))] @
          (case awaited ''Failed to refine schema'' r of
             Inr refinedSchema \<Rightarrow> [Set (SetSchema (Some refinedSchema))]
           | Inl error \<Rightarrow>
               [ConsoleError ''Error refining schema:'' error,
                Alert ''Failed to refine schema. Make sure the backend is running.'']) @
          [Set (SetIsGenerating False)])"

definition handleConfirm :: "ValidationResult response \<Rightarrow> Home_state \<Rightarrow> Home_event list" where
  "handleConfirm r st =
     (case schema st of
        None \<Rightarrow> []
      | Some sch \<Rightarrow>
          [Set (SetIsGenerating True),
           Fetch (POST (api @ ''/generate-app'') (Some (GenerateAppBody sch ''gpt-4o-mini'')))] @
          (case awaited ''Failed to generate application'' r of
             Inr result \<Rightarrow> [Set (SetValidationResult (Some result)), Set (SetCurrentStep Report)]
           | Inl error \<Rightarrow>
               [ConsoleError ''Error generating app:'' error,
                Alert ''Failed to generate application. Make sure the backend is running.'']) @
          [Set (SetIsGenerating False)])"

definition handleStartOver :: "Home_event list" where
  "handleStartOver =
     [Set (SetCurrentStep Prompt), Set (SetSchema None), Set (SetValidationResult None)]"

definition Home_run :: "Home_event list \<Rightarrow> Home_state \<Rightarrow> Home_state" where
  "Home_run = run Home_upd"

text \<open>
  Modelled from the spec: the submit handler of \<open>PromptScreen\<close>
  (components/prompt-screen.tsx), which calls \<open>onSubmit = handlePromptSubmit\<close>, is not
  among the sources. The spec says that submitting a prompt with an empty string is
  rejected client-side; \<open>handlePromptSubmit\<close> has no such check of its own, so the
  rejection is placed where the spec's sentence puts it, before \<open>onSubmit\<close> is called.
  Nothing else is assumed about the form.
\<close>

definition PromptScreen_submit ::
  "string \<Rightarrow> Params \<Rightarrow> SchemaDefinition response \<Rightarrow> Home_event list" where
  "PromptScreen_submit prompt params r =
     (if prompt = [] then [] else handlePromptSubmit prompt params r)"


section \<open>The validation report (components/validation-report.tsx)\<close>

text \<open>
  \<open>!(result as any).projectId\<close> holds when the member is missing and when it is the
  empty string.
\<close>

fun truthy :: "string option \<Rightarrow> bool" where
  "truthy None = False"
| "truthy (Some v) = (v \<noteq> [])"

type_synonym Blob = string

record Instructions =
  railway :: string
  render :: string
  docker :: string

record DeployData =
  instructions :: Instructions

text \<open>
  The component has no state of its own and sends no request body: its events carry
  neither.
\<close>

type_synonym plain_event = "(unit, unit) event"

definition VR_handleDownload :: "ValidationResult \<Rightarrow> Blob response \<Rightarrow> plain_event list" where
  "VR_handleDownload result r =
     (case projectId result of
        None \<Rightarrow> [Alert ''Project ID not found'']
      | Some pid \<Rightarrow>
          if pid = [] then [Alert ''Project ID not found'']
          else
            [Fetch (GET (api @ ''/projects/'' @ pid @ ''/download''))] @
            (case awaited ''Failed to download project'' r of
               Inr blob \<Rightarrow> [SaveAs (pid @ ''.zip'')]
             | Inl error \<Rightarrow>
                 [ConsoleError ''[v0] Error downloading project:'' error,
                  Alert ''Failed to download project. Make sure the backend is running.'']))"

definition VR_handleDeploy :: "ValidationResult \<Rightarrow> DeployData response \<Rightarrow> plain_event list" where
  "VR_handleDeploy result r =
     (case projectId result of
        None \<Rightarrow> [Alert ''Project ID not found'']
      | Some pid \<Rightarrow>
          if pid = [] then [Alert ''Project ID not found'']
          else
            [Fetch (POST (api @ ''/projects/'' @ pid @ ''/deploy'') None)] @
            (case awaited ''Failed to get deployment instructions'' r of
               Inr data \<Rightarrow>
                 [Alert (''Deployment Instructions:'' @ [CHR 0x0A, CHR 0x0A] @
                    ''Railway: '' @ railway (instructions data) @ [CHR 0x0A] @
                    ''Render: '' @ render (instructions data) @ [CHR 0x0A] @
                    ''Docker: '' @ docker (instructions data))]
             | Inl error \<Rightarrow>
                 [ConsoleError ''[v0] Error getting deployment instructions:'' error,
                  Alert ''Failed to get deployment instructions. Make sure the backend is running.'']))"


section \<open>The projects page (app/projects/page.tsx)\<close>

text \<open>
  \<open>created_at\<close> is a JavaScript number. Only its order and the sign of a difference
  are used, so any ordered ring stands for it (\<open>int\<close>, \<open>rat\<close>, \<open>real\<close>); JSON carries
  no NaN. \<open>schema\<close> is typed \<open>any\<close>.
\<close>

record ('n, 'j) Project =
  project_id :: string
  project_entityName :: string
  created_at :: 'n
  project_status :: string
  project_schema :: 'j
  project_path :: string

record ('n, 'j) ProjectsData =
  projects :: "('n, 'j) Project list"

record ('n, 'j) ProjectsPage_state =
  pp_projects :: "('n, 'j) Project list"
  pp_loading :: bool
  pp_selectedProject :: "string option"

definition ProjectsPage_init :: "('n, 'j) ProjectsPage_state" where
  "ProjectsPage_init = \<lparr>pp_projects = [], pp_loading = True, pp_selectedProject = None\<rparr>"

datatype ('n, 'j) ProjectsPage_set =
  SetProjects "('n, 'j) Project list"
| PP_SetLoading bool
| SetSelectedProject "string option"

fun ProjectsPage_upd ::
  "('n, 'j) ProjectsPage_set \<Rightarrow> ('n, 'j) ProjectsPage_state \<Rightarrow> ('n, 'j) ProjectsPage_state" where
  "ProjectsPage_upd (SetProjects v) s = s\<lparr>pp_projects := v\<rparr>"
| "ProjectsPage_upd (PP_SetLoading v) s = s\<lparr>pp_loading := v\<rparr>"
| "ProjectsPage_upd (SetSelectedProject v) s = s\<lparr>pp_selectedProject := v\<rparr>"

text \<open>
  \<open>Array.prototype.sort(compareFn)\<close> belongs to the JavaScript engine. ECMAScript
  requires it to be stable and, for a consistent comparator, to leave \<open>a\<close> before \<open>b\<close>
  only if \<open>compareFn(a, b) \<le> 0\<close>. A stable insertion sort stands for it.
\<close>

fun insert_by :: "('a \<Rightarrow> 'a \<Rightarrow> 'n::linordered_idom) \<Rightarrow> 'a \<Rightarrow> 'a list \<Rightarrow> 'a list" where
  "insert_by compareFn x [] = [x]"
| "insert_by compareFn x (y # ys) =
     (if compareFn x y \<le> 0 then x # y # ys else y # insert_by compareFn x ys)"

definition array_sort :: "('a \<Rightarrow> 'a \<Rightarrow> 'n::linordered_idom) \<Rightarrow> 'a list \<Rightarrow> 'a list" where
  "array_sort compareFn xs = foldr (insert_by compareFn) xs []"

definition loadProjects ::
  "('n::linordered_idom, 'j) ProjectsData response \<Rightarrow> (('n, 'j) ProjectsPage_set, unit) event list" where
  "loadProjects r =
     [Fetch (GET (api @ ''/projects''))] @
     (case awaited ''Failed to load projects'' r of
        Inr data \<Rightarrow>
          [Set (SetProjects (array_sort (\<lambda>a b. created_at b - created_at a) (projects data)))]
      | Inl error \<Rightarrow>
          [ConsoleError ''Error loading projects:'' error,
           Alert ''Failed to load projects. Make sure the backend is running.'']) @
     [Set (PP_SetLoading False)]"

definition PP_handleDownload :: "string \<Rightarrow> Blob response \<Rightarrow> plain_event list" where
  "PP_handleDownload pid r =
     [Fetch (GET (api @ ''/projects/'' @ pid @ ''/download''))] @
     (case awaited ''Failed to download project'' r of
        Inr blob \<Rightarrow> [SaveAs (pid @ ''.zip'')]
      | Inl error \<Rightarrow>
          [ConsoleError ''Error downloading project:'' error,
           Alert ''Failed to download project''])"

definition PP_handleDeploy :: "string \<Rightarrow> DeployData response \<Rightarrow> plain_event list" where
  "PP_handleDeploy pid r =
     [Fetch (POST (api @ ''/projects/'' @ pid @ ''/deploy'') None)] @
     (case awaited ''Failed to get deployment instructions'' r of
        Inr data \<Rightarrow>
          [Alert (''Deployment Instructions:'' @ [CHR 0x0A, CHR 0x0A] @
             ''Railway:'' @ [CHR 0x0A] @ railway (instructions data) @ [CHR 0x0A, CHR 0x0A] @
             ''Render:'' @ [CHR 0x0A] @ render (instructions data) @ [CHR 0x0A, CHR 0x0A] @
             ''Docker:'' @ [CHR 0x0A] @ docker (instructions data))]
      | Inl error \<Rightarrow>
          [ConsoleError ''Error getting deployment instructions:'' error,
           Alert ''Failed to get deployment instructions''])"

definition ProjectsPage_run ::
  "(('n, 'j) ProjectsPage_set, unit) event list \<Rightarrow> ('n, 'j) ProjectsPage_state
     \<Rightarrow> ('n, 'j) ProjectsPage_state" where
  "ProjectsPage_run = run ProjectsPage_upd"


section \<open>The file browser (components/file-browser.tsx)\<close>

record FileInfo =
  file_name :: string
  file_path :: string
  file_type :: string
  file_size :: nat

record FileData =
  content :: string

text \<open>
  \<open>expandedFolders\<close> is a JavaScript \<open>Set\<close> of which only \<open>has\<close>, \<open>add\<close> and
  \<open>delete\<close> are used: a set of strings.
\<close>

record FileBrowser_state =
  files :: "FileInfo list"
  selectedFile :: "string option"
  fileContent :: string
  loading :: bool
  expandedFolders :: "string set"

definition FileBrowser_init :: FileBrowser_state where
  "FileBrowser_init = \<lparr>files = [], selectedFile = None, fileContent = [], loading = True,
     expandedFolders = {''root''}\<rparr>"

datatype FileBrowser_set =
  SetFiles "FileInfo list"
| SetSelectedFile "string option"
| SetFileContent string
| SetLoading bool
| SetExpandedFolders "string set"

fun FileBrowser_upd :: "FileBrowser_set \<Rightarrow> FileBrowser_state \<Rightarrow> FileBrowser_state" where
  "FileBrowser_upd (SetFiles v) s = s\<lparr>files := v\<rparr>"
| "FileBrowser_upd (SetSelectedFile v) s = s\<lparr>selectedFile := v\<rparr>"
| "FileBrowser_upd (SetFileContent v) s = s\<lparr>fileContent := v\<rparr>"
| "FileBrowser_upd (SetLoading v) s = s\<lparr>loading := v\<rparr>"
| "FileBrowser_upd (SetExpandedFolders v) s = s\<lparr>expandedFolders := v\<rparr>"

type_synonym FileBrowser_event = "(FileBrowser_set, unit) event"

text \<open>
  \<open>loadFileContent\<close> runs up to its \<open>await fetch(...)\<close> as soon as it is called, and
  the rest when the response is there.
\<close>

definition loadFileContent_called :: "string \<Rightarrow> string \<Rightarrow> FileBrowser_event list" where
  "loadFileContent_called pid filePath =
     [Set (SetSelectedFile (Some filePath)),
      Set (SetFileContent ''Loading...''),
      Fetch (GET (api @ ''/projects/'' @ pid @ ''/files/'' @ filePath))]"

definition loadFileContent_resumed :: "FileData response \<Rightarrow> FileBrowser_event list" where
  "loadFileContent_resumed r =
     (case awaited ''Failed to load file content'' r of
        Inr data \<Rightarrow> [Set (SetFileContent (content data))]
      | Inl error \<Rightarrow>
          [ConsoleError ''[v0] Error loading file content:'' error,
           Set (SetFileContent ''Error loading file content'')])"

definition loadFileContent :: "string \<Rightarrow> string \<Rightarrow> FileData response \<Rightarrow> FileBrowser_event list" where
  "loadFileContent pid filePath r =
     loadFileContent_called pid filePath @ loadFileContent_resumed r"

text \<open>
  \<open>loadFiles\<close> calls \<open>loadFileContent(data[0].path)\<close> without awaiting it, so its
  \<open>finally\<close> block runs before the content response \<open>rc\<close> is handled.
\<close>

definition loadFiles ::
  "string \<Rightarrow> FileInfo list response \<Rightarrow> FileData response \<Rightarrow> FileBrowser_event list" where
  "loadFiles pid r rc =
     [Fetch (GET (api @ ''/projects/'' @ pid @ ''/files''))] @
     (case awaited ''Failed to load files'' r of
        Inr data \<Rightarrow>
          [Set (SetFiles data)] @
          (case data of
             [] \<Rightarrow> [Set (SetLoading False)]
           | first # rest \<Rightarrow>
               loadFileContent_called pid (file_path first) @
               [Set (SetLoading False)] @
               loadFileContent_resumed rc)
      | Inl error \<Rightarrow>
          [ConsoleError ''[v0] Error loading files:'' error,
           Set (SetLoading False)])"

definition toggleFolder :: "string \<Rightarrow> FileBrowser_state \<Rightarrow> FileBrowser_event list" where
  "toggleFolder folder st =
     (let newExpanded = expandedFolders st in
      [Set (SetExpandedFolders
         (if folder \<in> newExpanded then newExpanded - {folder} else insert folder newExpanded))])"

definition FileBrowser_run ::
  "FileBrowser_event list \<Rightarrow> FileBrowser_state \<Rightarrow> FileBrowser_state" where
  "FileBrowser_run = run FileBrowser_upd"

text \<open>
  What the component renders where the file content goes; \<open>selectedFile ? ... : ...\<close>
  takes the second branch for \<open>null\<close> and for the empty string.
\<close>

datatype pane = Message string | FileView string string

definition content_pane :: "FileBrowser_state \<Rightarrow> pane" where
  "content_pane st =
     (if loading st then Message ''Loading files...''
      else case selectedFile st of
        None \<Rightarrow> Message ''Select a file to view its contents''
      | Some p \<Rightarrow>
          if p = [] then Message ''Select a file to view its contents''
          else FileView p (fileContent st))"


section \<open>Sample inputs\<close>

definition book_params :: Params where
  "book_params = \<lparr>params_entityName = ''Book'', params_operations = [''create'', ''read'']\<rparr>"

definition title_field :: FieldDefinition where
  "title_field = \<lparr>field_id = ''1'', field_name = ''title'', field_label = ''Title'',
     field_type = T_string, field_required = True, field_defaultValue = None\<rparr>"

definition all_operations :: Operations where
  "all_operations = \<lparr>op_create = True, op_read = True, op_update = True, op_delete = True\<rparr>"

definition book_schema :: SchemaDefinition where
  "book_schema = \<lparr>entityName = ''Book'', schemaFields = [title_field],
     operations = all_operations\<rparr>"

text \<open>A schema with two fields of the same name.\<close>

definition duplicate_schema :: SchemaDefinition where
  "duplicate_schema = \<lparr>entityName = ''Book'',
     schemaFields = [title_field, title_field\<lparr>field_id := ''2'', field_label := ''Other title''\<rparr>],
     operations = all_operations\<rparr>"

text \<open>The wizard at the schema step, with a schema in memory.\<close>

definition editing_state :: Home_state where
  "editing_state = \<lparr>currentStep = Mockup, schema = Some book_schema, validationResult = None,
     isGenerating = False\<rparr>"

definition no_files :: GeneratedFiles where
  "no_files = \<lparr>gf_sql = None, gf_schema = None, gf_orm = None, gf_api = None,
     gf_frontend = None, gf_templates = None, gf_requirements = None, gf_readme = None\<rparr>"

definition result_without_id :: ValidationResult where
  "result_without_id = \<lparr>success = True, errors = [], warnings = [], generatedFiles = no_files,
     projectId = None, codePreview = None\<rparr>"

definition result_with_id :: ValidationResult where
  "result_with_id = result_without_id\<lparr>projectId := Some ''p1''\<rparr>"

definition project :: "string \<Rightarrow> int \<Rightarrow> (int, unit) Project" where
  "project i t = \<lparr>project_id = i, project_entityName = ''Book'', created_at = t,
     project_status = ''generated'', project_schema = (), project_path = ''generated/'' @ i\<rparr>"

definition main_py :: FileInfo where
  "main_py = \<lparr>file_name = ''main.py'', file_path = ''backend/main.py'', file_type = ''file'',
     file_size = 120\<rparr>"

definition readme_md :: FileInfo where
  "readme_md = \<lparr>file_name = ''README.md'', file_path = ''README.md'', file_type = ''file'',
     file_size = 40\<rparr>"




text \<open>A file browser that has loaded the two files of project \<open>p1\<close> and shows the first.\<close>

definition browsing_state :: FileBrowser_state where
  "browsing_state =
     FileBrowser_run
       (loadFiles ''p1'' (Response 200 (Some [main_py, readme_md]))
          (Response 200 (Some \<lparr>content = ''print(1)''\<rparr>)))
       FileBrowser_init"


section \<open>Replaying effects\<close>

lemma run_simps:
  "run upd [] s = s"
  "run upd (Set u # es) s = run upd es (upd u s)"
  "run upd (Fetch q # es) s = run upd es s"
  "run upd (Alert m # es) s = run upd es s"
  "run upd (ConsoleError m e # es) s = run upd es s"
  "run upd (SaveAs n # es) s = run upd es s"
  by (simp_all add: run_def)

lemma run_append: "run upd (es @ fs) s = run upd fs (run upd es s)"
  by (simp add: run_def) (induction es arbitrary: s rule: setters.induct, simp_all)

lemma await_split: "until_await es @ after_await es = es"
  by (induction es rule: until_await.induct) simp_all

lemma browsing_state_eq:
  "browsing_state = \<lparr>files = [main_py, readme_md], selectedFile = Some ''backend/main.py'',
     fileContent = ''print(1)'', loading = False, expandedFolders = {''root''}\<rparr>"
  by (simp add: browsing_state_def loadFiles_def loadFileContent_called_def
      loadFileContent_resumed_def FileBrowser_run_def run_simps FileBrowser_init_def ok_def
      main_py_def)

lemma awaited_failed: "failed r \<Longrightarrow> \<exists>e. awaited msg r = Inl e"
  by (cases r) simp_all

lemma resumed_quiet:
  "fetches (loadFileContent_resumed rc) = []"
  "alerts (loadFileContent_resumed rc) = []"
  by (cases "awaited ''Failed to load file content'' rc";
      simp add: loadFileContent_resumed_def)+

lemma resumed_keeps_selection:
  "selectedFile (run FileBrowser_upd (loadFileContent_resumed rc) s) = selectedFile s"
  by (cases "awaited ''Failed to load file content'' rc")
    (simp_all add: loadFileContent_resumed_def run_simps)

lemma resumed_content:
  "ok cstatus \<Longrightarrow>
   fileContent (run FileBrowser_upd (loadFileContent_resumed (Response cstatus (Some d))) s) =
     content d"
  by (simp add: loadFileContent_resumed_def run_simps)


section \<open>How failed requests are reported\<close>

lemma failed_handlePromptSubmit:
  "failed r \<Longrightarrow>
   alerts (handlePromptSubmit prompt params r) =
     [''Failed to generate schema. Make sure the backend is running on port 8000.'']
   \<and> length (fetches (handlePromptSubmit prompt params r)) = 1"
  by (cases r) (simp_all add: handlePromptSubmit_def)

lemma failed_handleRegenerate:
  "schema st \<noteq> None \<Longrightarrow> failed r \<Longrightarrow>
   alerts (handleRegenerate feedback r st) =
     [''Failed to refine schema. Make sure the backend is running.'']
   \<and> length (fetches (handleRegenerate feedback r st)) = 1"
  by (cases r) (auto simp: handleRegenerate_def)

lemma failed_handleConfirm:
  "schema st \<noteq> None \<Longrightarrow> failed r \<Longrightarrow>
   alerts (handleConfirm r st) =
     [''Failed to generate application. Make sure the backend is running.'']
   \<and> length (fetches (handleConfirm r st)) = 1"
  by (cases r) (auto simp: handleConfirm_def)

lemma failed_loadProjects:
  "failed r \<Longrightarrow>
   alerts (loadProjects r) = [''Failed to load projects. Make sure the backend is running.'']
   \<and> length (fetches (loadProjects r)) = 1"
  by (cases r) (simp_all add: loadProjects_def)

lemma failed_PP_handleDownload:
  "failed r \<Longrightarrow>
   alerts (PP_handleDownload pid r) = [''Failed to download project'']
   \<and> length (fetches (PP_handleDownload pid r)) = 1"
  by (cases r) (simp_all add: PP_handleDownload_def)

lemma failed_PP_handleDeploy:
  "failed r \<Longrightarrow>
   alerts (PP_handleDeploy pid r) = [''Failed to get deployment instructions'']
   \<and> length (fetches (PP_handleDeploy pid r)) = 1"
  by (cases r) (simp_all add: PP_handleDeploy_def)

lemma failed_VR_handleDownload:
  "truthy (projectId result) \<Longrightarrow> failed r \<Longrightarrow>
   alerts (VR_handleDownload result r) =
     [''Failed to download project. Make sure the backend is running.'']
   \<and> length (fetches (VR_handleDownload result r)) = 1"
  by (cases r; cases "projectId result") (simp_all add: VR_handleDownload_def)

lemma failed_VR_handleDeploy:
  "truthy (projectId result) \<Longrightarrow> failed r \<Longrightarrow>
   alerts (VR_handleDeploy result r) =
     [''Failed to get deployment instructions. Make sure the backend is running.'']
   \<and> length (fetches (VR_handleDeploy result r)) = 1"
  by (cases r; cases "projectId result") (simp_all add: VR_handleDeploy_def)

lemma loadFileContent_no_alert:
  "alerts (loadFileContent pid filePath r) = []
   \<and> fetches (loadFileContent pid filePath r) =
       [GET (api @ ''/projects/'' @ pid @ ''/files/'' @ filePath)]"
  by (simp add: loadFileContent_def loadFileContent_called_def resumed_quiet)

lemma loadFiles_no_alert: "alerts (loadFiles pid r rc) = []"
proof (cases "awaited ''Failed to load files'' r")
  case (Inl e)
  then show ?thesis by (simp add: loadFiles_def)
next
  case (Inr data)
  then show ?thesis
    by (cases data) (simp_all add: loadFiles_def loadFileContent_called_def resumed_quiet)
qed

lemma failed_loadFiles:
  "failed r \<Longrightarrow>
   (\<exists>e. loadFiles pid r rc =
      [Fetch (GET (api @ ''/projects/'' @ pid @ ''/files'')),
       ConsoleError ''[v0] Error loading files:'' e,
       Set (SetLoading False)])"
  by (cases r) (simp_all add: loadFiles_def)

lemma failed_loadFileContent:
  "failed r \<Longrightarrow>
   FileBrowser_run (loadFileContent pid filePath r) st =
     st\<lparr>selectedFile := Some filePath, fileContent := ''Error loading file content''\<rparr>"
  by (cases r)
    (simp_all add: loadFileContent_def loadFileContent_called_def loadFileContent_resumed_def
      FileBrowser_run_def run_simps)

lemma failed_loadFileContent_events:
  "failed r \<Longrightarrow>
   (\<exists>e. loadFileContent pid filePath r =
      [Set (SetSelectedFile (Some filePath)),
       Set (SetFileContent ''Loading...''),
       Fetch (GET (api @ ''/projects/'' @ pid @ ''/files/'' @ filePath)),
       ConsoleError ''[v0] Error loading file content:'' e,
       Set (SetFileContent ''Error loading file content'')])"
  by (cases r)
    (simp_all add: loadFileContent_def loadFileContent_called_def loadFileContent_resumed_def)

lemma failed_loadFileContent_pane:
  "failed r \<Longrightarrow> \<not> loading st \<Longrightarrow> filePath \<noteq> [] \<Longrightarrow>
   content_pane (FileBrowser_run (loadFileContent pid filePath r) st) =
     FileView filePath ''Error loading file content''"
  by (simp add: failed_loadFileContent content_pane_def)

lemma failed_loadFiles_state:
  "failed r \<Longrightarrow> FileBrowser_run (loadFiles pid r rc) st = st\<lparr>loading := False\<rparr>"
  by (cases r) (simp_all add: loadFiles_def FileBrowser_run_def run_simps)

text \<open>
  C1, as stated, fails in the file browser. A status 500 for the file list, and a
  rejected fetch of a file's content, are failed requests after which no alert is
  raised: \<open>loadFiles\<close> and \<open>loadFileContent\<close> contain no call of \<open>alert\<close>.
\<close>

theorem file_browser_failure_raises_no_alert:
  "failed (Response 500 None :: FileInfo list response)
   \<and> fetches (loadFiles ''p1'' (Response 500 None) Rejected) =
       [GET ''http://localhost:8000/api/projects/p1/files'']
   \<and> alerts (loadFiles ''p1'' (Response 500 None) Rejected) = []
   \<and> failed (Rejected :: FileData response)
   \<and> alerts (loadFileContent ''p1'' ''backend/main.py'' Rejected) = []"
  by (simp add: ok_def loadFiles_def loadFileContent_def loadFileContent_called_def
      loadFileContent_resumed_def api_def)

text \<open>
  C1, amended. A fetch of the wizard page (generate-schema, refine-schema,
  generate-app), of the projects page (projects, download, deploy) or of the validation
  report (download, deploy) that rejects or returns a status outside 200 to 299 raises
  exactly one alert, and the handler issues that one request only. The file browser
  raises no alert at all. A failed file-list fetch is written to the console with
  \<open>console.error\<close> and ends the loading state, changing nothing else. A failed
  file-content fetch is written to the console with \<open>console.error\<close> and stores
  \<open>Error loading file content\<close> as the content of the selected file, which the viewer
  shows for that file once the browser is past its loading state (the path being
  non-empty). Neither is tried again.
\<close>

theorem failures_reported_without_retry:
  "(failed rs \<longrightarrow>
      alerts (handlePromptSubmit prompt params rs) =
        [''Failed to generate schema. Make sure the backend is running on port 8000.'']
      \<and> length (fetches (handlePromptSubmit prompt params rs)) = 1)
   \<and> (schema st \<noteq> None \<and> failed rr \<longrightarrow>
        alerts (handleRegenerate feedback rr st) =
          [''Failed to refine schema. Make sure the backend is running.'']
        \<and> length (fetches (handleRegenerate feedback rr st)) = 1)
   \<and> (schema st \<noteq> None \<and> failed ra \<longrightarrow>
        alerts (handleConfirm ra st) =
          [''Failed to generate application. Make sure the backend is running.'']
        \<and> length (fetches (handleConfirm ra st)) = 1)
   \<and> (failed rp \<longrightarrow>
        alerts (loadProjects rp) = [''Failed to load projects. Make sure the backend is running.'']
        \<and> length (fetches (loadProjects rp)) = 1)
   \<and> (failed rb \<longrightarrow>
        alerts (PP_handleDownload pid rb) = [''Failed to download project'']
        \<and> length (fetches (PP_handleDownload pid rb)) = 1)
   \<and> (failed rd \<longrightarrow>
        alerts (PP_handleDeploy pid rd) = [''Failed to get deployment instructions'']
        \<and> length (fetches (PP_handleDeploy pid rd)) = 1)
   \<and> (truthy (projectId result) \<and> failed rb \<longrightarrow>
        alerts (VR_handleDownload result rb) =
          [''Failed to download project. Make sure the backend is running.'']
        \<and> length (fetches (VR_handleDownload result rb)) = 1)
   \<and> (truthy (projectId result) \<and> failed rd \<longrightarrow>
        alerts (VR_handleDeploy result rd) =
          [''Failed to get deployment instructions. Make sure the backend is running.'']
        \<and> length (fetches (VR_handleDeploy result rd)) = 1)
   \<and> alerts (loadFiles pid rf rc) = []
   \<and> (failed rf \<longrightarrow>
        (\<exists>e. loadFiles pid rf rc =
           [Fetch (GET (api @ ''/projects/'' @ pid @ ''/files'')),
            ConsoleError ''[v0] Error loading files:'' e,
            Set (SetLoading False)])
        \<and> FileBrowser_run (loadFiles pid rf rc) bst = bst\<lparr>loading := False\<rparr>)
   \<and> alerts (loadFileContent pid filePath rc) = []
   \<and> length (fetches (loadFileContent pid filePath rc)) = 1
   \<and> (failed rc \<longrightarrow>
        (\<exists>e. loadFileContent pid filePath rc =
           [Set (SetSelectedFile (Some filePath)),
            Set (SetFileContent ''Loading...''),
            Fetch (GET (api @ ''/projects/'' @ pid @ ''/files/'' @ filePath)),
            ConsoleError ''[v0] Error loading file content:'' e,
            Set (SetFileContent ''Error loading file content'')])
        \<and> fileContent (FileBrowser_run (loadFileContent pid filePath rc) bst) =
            ''Error loading file content'')
   \<and> (failed rc \<and> \<not> loading bst \<and> filePath \<noteq> [] \<longrightarrow>
        content_pane (FileBrowser_run (loadFileContent pid filePath rc) bst) =
          FileView filePath ''Error loading file content'')"
proof -
  note a = failed_handlePromptSubmit [of rs prompt params]
    and b = failed_handleRegenerate [of st rr feedback]
    and c = failed_handleConfirm [of st ra]
    and d = failed_loadProjects [of rp]
    and e = failed_PP_handleDownload [of rb pid]
    and f = failed_PP_handleDeploy [of rd pid]
    and g = failed_VR_handleDownload [of result rb]
    and h = failed_VR_handleDeploy [of result rd]
    and i = loadFiles_no_alert [of pid rf rc]
    and j = failed_loadFiles [of rf pid rc]
    and j' = failed_loadFiles_state [of rf pid rc bst]
    and k = loadFileContent_no_alert [of pid filePath rc]
    and l = failed_loadFileContent [of rc pid filePath bst]
    and m = failed_loadFileContent_events [of rc pid filePath]
    and n = failed_loadFileContent_pane [of rc bst filePath pid]
  have k': "length (fetches (loadFileContent pid filePath rc)) = 1"
    using k by simp
  have l': "failed rc \<longrightarrow>
      fileContent (FileBrowser_run (loadFileContent pid filePath rc) bst) =
        ''Error loading file content''"
    using l by simp
  show ?thesis
    apply (intro conjI impI)
    using a apply blast
    using a apply blast
    using b apply blast
    using b apply blast
    using c apply blast
    using c apply blast
    using d apply blast
    using d apply blast
    using e apply blast
    using e apply blast
    using f apply blast
    using f apply blast
    using g apply blast
    using g apply blast
    using h apply blast
    using h apply blast
    using i apply blast
    using j apply blast
    using j' apply blast
    using k apply blast
    using k' apply blast
    using m apply blast
    using l' apply blast
    using n apply blast
    done
qed

theorem failures_reported_without_retry_witness:
  "failed (Response 500 None :: SchemaDefinition response)
   \<and> schema editing_state \<noteq> None
   \<and> failed (Rejected :: SchemaDefinition response)
   \<and> failed (Response 503 None :: ValidationResult response)
   \<and> failed (Rejected :: (int, unit) ProjectsData response)
   \<and> failed (Response 404 None :: Blob response)
   \<and> failed (Response 404 None :: DeployData response)
   \<and> truthy (projectId result_with_id)
   \<and> failed (Response 500 None :: FileInfo list response)
   \<and> failed (Response 404 None :: FileData response)
   \<and> \<not> loading browsing_state \<and> ''README.md'' \<noteq> []
   \<and> alerts (handlePromptSubmit ''a library'' book_params (Response 500 None)) =
       [''Failed to generate schema. Make sure the backend is running on port 8000.'']
   \<and> alerts (handleRegenerate ''add an author'' Rejected editing_state) =
       [''Failed to refine schema. Make sure the backend is running.'']
   \<and> alerts (handleConfirm (Response 503 None) editing_state) =
       [''Failed to generate application. Make sure the backend is running.'']
   \<and> alerts (loadProjects (Rejected :: (int, unit) ProjectsData response)) =
       [''Failed to load projects. Make sure the backend is running.'']
   \<and> alerts (PP_handleDownload ''p1'' (Response 404 None)) = [''Failed to download project'']
   \<and> alerts (PP_handleDeploy ''p1'' (Response 404 None)) =
       [''Failed to get deployment instructions'']
   \<and> alerts (VR_handleDownload result_with_id (Response 404 None)) =
       [''Failed to download project. Make sure the backend is running.'']
   \<and> alerts (VR_handleDeploy result_with_id (Response 404 None)) =
       [''Failed to get deployment instructions. Make sure the backend is running.'']
   \<and> alerts (loadFiles ''p1'' (Response 500 None) (Response 404 None)) = []
   \<and> loadFileContent ''p1'' ''README.md'' (Response 404 None) =
       [Set (SetSelectedFile (Some ''README.md'')),
        Set (SetFileContent ''Loading...''),
        Fetch (GET ''http://localhost:8000/api/projects/p1/files/README.md''),
        ConsoleError ''[v0] Error loading file content:'' (Thrown ''Failed to load file content''),
        Set (SetFileContent ''Error loading file content'')]
   \<and> content_pane (FileBrowser_run (loadFileContent ''p1'' ''README.md'' (Response 404 None))
        browsing_state) = FileView ''README.md'' ''Error loading file content''"
  using failures_reported_without_retry [where rs = "Response 500 None"
      and prompt = "''a library''" and params = book_params and st = editing_state
      and rr = Rejected and feedback = "''add an author''" and ra = "Response 503 None"
      and rp = "Rejected :: (int, unit) ProjectsData response"
      and rb = "Response 404 None" and rd = "Response 404 None" and pid = "''p1''"
      and result = result_with_id and rf = "Response 500 None" and rc = "Response 404 None"
      and filePath = "''README.md''" and bst = browsing_state]
  by (simp add: ok_def editing_state_def result_with_id_def result_without_id_def
      browsing_state_eq api_def loadFileContent_def loadFileContent_called_def
      loadFileContent_resumed_def)


section \<open>The wizard page: failures of generate-schema\<close>

text \<open>
  C2. When the generate-schema request of \<open>handlePromptSubmit\<close> returns a status outside
  200 to 299, exactly one alert is shown, and the state of the wizard afterwards is the
  state before with \<open>isGenerating\<close> false: the step is the one it was (\<open>prompt\<close>, the
  only step at which the prompt form is rendered) and the stored schema is unchanged.
\<close>

theorem generate_schema_failure_keeps_step:
  assumes "\<not> ok status"
  shows "alerts (handlePromptSubmit prompt params (Response status body)) =
           [''Failed to generate schema. Make sure the backend is running on port 8000.'']
       \<and> Home_run (handlePromptSubmit prompt params (Response status body)) st =
           st\<lparr>isGenerating := False\<rparr>
       \<and> currentStep (Home_run (handlePromptSubmit prompt params (Response status body)) st) =
           currentStep st
       \<and> schema (Home_run (handlePromptSubmit prompt params (Response status body)) st) =
           schema st"
  using assms by (simp add: handlePromptSubmit_def Home_run_def run_simps)

theorem generate_schema_failure_keeps_step_witness:
  "\<not> ok 500
   \<and> alerts (handlePromptSubmit ''a library'' book_params (Response 500 None)) =
       [''Failed to generate schema. Make sure the backend is running on port 8000.'']
   \<and> currentStep (Home_run (handlePromptSubmit ''a library'' book_params (Response 500 None))
        Home_init) = Prompt
   \<and> schema (Home_run (handlePromptSubmit ''a library'' book_params (Response 500 None))
        Home_init) = None"
proof -
  have h: "\<not> ok 500" by (simp add: ok_def)
  show ?thesis
    using h generate_schema_failure_keeps_step [OF h, of "''a library''" book_params None
        Home_init]
    by (simp add: Home_init_def)
qed


section \<open>The result of generate-app and its project id\<close>

text \<open>
  C3, as stated, fails: \<open>projectId\<close> is declared optional in \<open>ValidationResult\<close>, and
  a result without it is accepted. \<open>handleConfirm\<close> stores such a result and moves to
  the report step; the download and deploy buttons of the report then only alert
  \<open>Project ID not found\<close>.
\<close>

theorem result_without_projectId_accepted:
  "projectId result_without_id = None
   \<and> Home_run (handleConfirm (Response 200 (Some result_without_id)) editing_state) editing_state =
       editing_state\<lparr>validationResult := Some result_without_id, currentStep := Report\<rparr>
   \<and> VR_handleDownload result_without_id (Response 200 (Some ''PK'')) =
       [Alert ''Project ID not found'']
   \<and> VR_handleDeploy result_without_id Rejected = [Alert ''Project ID not found'']"
  by (simp add: result_without_id_def handleConfirm_def editing_state_def Home_run_def run_simps
      ok_def VR_handleDownload_def VR_handleDeploy_def)

text \<open>
  C3, amended. The result of generate-app, as consumed by the frontend, contains
  \<open>success\<close>, \<open>errors\<close>, \<open>warnings\<close> and \<open>generatedFiles\<close>; \<open>projectId\<close> is optional.
  \<open>handleConfirm\<close> stores every result of a successful response and moves to the
  report step, with or without a project id. When the id is missing or empty, download
  and deploy alert \<open>Project ID not found\<close> and send nothing; when it is there, each
  sends its one request for that project and never raises that alert.
\<close>

theorem projectId_optional:
  "(schema st \<noteq> None \<and> ok status \<longrightarrow>
      validationResult (Home_run (handleConfirm (Response status (Some result)) st) st) =
        Some result
      \<and> currentStep (Home_run (handleConfirm (Response status (Some result)) st) st) = Report)
   \<and> (\<not> truthy (projectId result) \<longrightarrow>
        VR_handleDownload result rb = [Alert ''Project ID not found'']
        \<and> VR_handleDeploy result rd = [Alert ''Project ID not found''])
   \<and> (truthy (projectId result) \<longrightarrow>
        (\<exists>pid. projectId result = Some pid
           \<and> fetches (VR_handleDownload result rb) =
               [GET (api @ ''/projects/'' @ pid @ ''/download'')]
           \<and> fetches (VR_handleDeploy result rd) =
               [POST (api @ ''/projects/'' @ pid @ ''/deploy'') None])
        \<and> ''Project ID not found'' \<notin> set (alerts (VR_handleDownload result rb))
        \<and> ''Project ID not found'' \<notin> set (alerts (VR_handleDeploy result rd)))"
proof (intro conjI impI)
  assume "schema st \<noteq> None \<and> ok status"
  then show
    "validationResult (Home_run (handleConfirm (Response status (Some result)) st) st) =
       Some result"
    and "currentStep (Home_run (handleConfirm (Response status (Some result)) st) st) = Report"
    by (auto simp: handleConfirm_def Home_run_def run_simps)
next
  assume "\<not> truthy (projectId result)"
  then show "VR_handleDownload result rb = [Alert ''Project ID not found'']"
    and "VR_handleDeploy result rd = [Alert ''Project ID not found'']"
    by (cases "projectId result"; simp add: VR_handleDownload_def VR_handleDeploy_def)+
next
  assume "truthy (projectId result)"
  then obtain pid where p: "projectId result = Some pid" "pid \<noteq> []"
    by (cases "projectId result") simp_all
  show "\<exists>pid. projectId result = Some pid
           \<and> fetches (VR_handleDownload result rb) =
               [GET (api @ ''/projects/'' @ pid @ ''/download'')]
           \<and> fetches (VR_handleDeploy result rd) =
               [POST (api @ ''/projects/'' @ pid @ ''/deploy'') None]"
    using p
    by (cases "awaited ''Failed to download project'' rb";
        cases "awaited ''Failed to get deployment instructions'' rd";
        simp add: VR_handleDownload_def VR_handleDeploy_def)
  show "''Project ID not found'' \<notin> set (alerts (VR_handleDownload result rb))"
    using p
    by (cases "awaited ''Failed to download project'' rb"; simp add: VR_handleDownload_def)
  show "''Project ID not found'' \<notin> set (alerts (VR_handleDeploy result rd))"
    using p
    by (cases "awaited ''Failed to get deployment instructions'' rd";
        simp add: VR_handleDeploy_def)
qed

theorem projectId_optional_witness:
  "schema editing_state \<noteq> None \<and> ok 200
   \<and> \<not> truthy (projectId (result_without_id\<lparr>projectId := Some []\<rparr>))
   \<and> truthy (projectId result_with_id)
   \<and> validationResult (Home_run (handleConfirm (Response 200 (Some result_with_id))
        editing_state) editing_state) = Some result_with_id
   \<and> VR_handleDownload (result_without_id\<lparr>projectId := Some []\<rparr>) Rejected =
       [Alert ''Project ID not found'']
   \<and> fetches (VR_handleDownload result_with_id Rejected) =
       [GET ''http://localhost:8000/api/projects/p1/download'']
   \<and> fetches (VR_handleDeploy result_with_id Rejected) =
       [POST ''http://localhost:8000/api/projects/p1/deploy'' None]"
  using projectId_optional [where st = editing_state and status = 200 and result = result_with_id
      and rb = Rejected and rd = Rejected]
    projectId_optional [where st = editing_state and status = 200
      and result = "result_without_id\<lparr>projectId := Some []\<rparr>" and rb = Rejected and rd = Rejected]
  by (simp add: ok_def editing_state_def result_with_id_def api_def)


section \<open>The empty prompt\<close>

text \<open>
  \<open>handlePromptSubmit\<close> sends whatever prompt it is given, the empty one included;
  what the spec says about the empty prompt is decided before it is called.
\<close>

lemma handlePromptSubmit_sends_any_prompt:
  "fetches (handlePromptSubmit prompt params r) =
     [POST (api @ ''/generate-schema'')
        (Some (GenerateSchemaBody prompt (params_entityName params) (params_operations params)
           ''gpt-4o-mini''))]"
  by (cases "awaited ''Failed to generate schema'' r") (simp_all add: handlePromptSubmit_def)

text \<open>
  C4. Submitting the empty string as prompt is rejected in the browser: nothing happens
  at all, so no generate-schema request is sent, and the state of the wizard, its step
  included, is what it was.
\<close>

theorem empty_prompt_rejected:
  "PromptScreen_submit [] params r = []
   \<and> fetches (PromptScreen_submit [] params r) = []
   \<and> Home_run (PromptScreen_submit [] params r) st = st
   \<and> currentStep (Home_run (PromptScreen_submit [] params r) Home_init) = Prompt"
  by (simp add: PromptScreen_submit_def Home_run_def run_simps Home_init_def)


section \<open>Refining the schema\<close>

text \<open>
  C5. After a successful refine-schema call (a schema is in memory, the status is in 200
  to 299 and the body parses) the stored schema is the refined schema of the response.
  If the call rejects or returns another status, the stored schema is exactly what it
  was before.
\<close>

theorem refine_replaces_or_keeps_schema:
  "(schema st \<noteq> None \<and> ok status \<longrightarrow>
      schema (Home_run (handleRegenerate feedback (Response status (Some refined)) st) st) =
        Some refined)
   \<and> (failed r \<longrightarrow> schema (Home_run (handleRegenerate feedback r st) st) = schema st)"
proof (intro conjI impI)
  assume "schema st \<noteq> None \<and> ok status"
  then show
    "schema (Home_run (handleRegenerate feedback (Response status (Some refined)) st) st) =
       Some refined"
    by (auto simp: handleRegenerate_def Home_run_def run_simps)
next
  assume "failed r"
  then obtain e where "awaited ''Failed to refine schema'' r = Inl e"
    using awaited_failed by blast
  then show "schema (Home_run (handleRegenerate feedback r st) st) = schema st"
    by (cases "schema st") (simp_all add: handleRegenerate_def Home_run_def run_simps)
qed

theorem refine_replaces_or_keeps_schema_witness:
  "schema editing_state \<noteq> None \<and> ok 200
   \<and> failed (Response 500 None :: SchemaDefinition response)
   \<and> schema (Home_run (handleRegenerate ''add a field'' (Response 200 (Some duplicate_schema))
        editing_state) editing_state) = Some duplicate_schema
   \<and> schema (Home_run (handleRegenerate ''add a field'' (Response 500 None)
        editing_state) editing_state) = Some book_schema"
  using refine_replaces_or_keeps_schema [of editing_state 200 "''add a field''" duplicate_schema
      "Response 500 None"]
  by (simp add: editing_state_def ok_def)


section \<open>The flag around each request\<close>












section \<open>User edits of the schema\<close>

text \<open>
  C7. No invariant is enforced on a user edit: for every schema given to
  \<open>handleSchemaUpdate\<close>, one with two fields of the same name included, the schema is
  stored as it is, unconditionally; nothing else of the state changes, nothing is
  validated, rejected, alerted or sent.
\<close>

theorem schema_update_unconditional:
  "Home_run (handleSchemaUpdate updatedSchema) st = st\<lparr>schema := Some updatedSchema\<rparr>
   \<and> schema (Home_run (handleSchemaUpdate updatedSchema) st) = Some updatedSchema
   \<and> alerts (handleSchemaUpdate updatedSchema) = []
   \<and> fetches (handleSchemaUpdate updatedSchema) = []"
  by (simp add: handleSchemaUpdate_def Home_run_def run_simps)

theorem schema_update_unconditional_witness:
  "\<not> distinct (map field_name (schemaFields duplicate_schema))
   \<and> schema (Home_run (handleSchemaUpdate duplicate_schema) editing_state) =
       Some duplicate_schema
   \<and> alerts (handleSchemaUpdate duplicate_schema) = []"
  using schema_update_unconditional [of duplicate_schema editing_state]
  by (simp add: duplicate_schema_def title_field_def)


section \<open>The projects list\<close>

lemma mset_insert_by: "mset (insert_by c x xs) = add_mset x (mset xs)"
  by (induction xs) simp_all

lemma set_insert_by: "set (insert_by c x xs) = insert x (set xs)"
  by (induction xs) auto

lemma mset_array_sort: "mset (array_sort c xs) = mset xs"
  by (induction xs) (simp_all add: array_sort_def mset_insert_by)

lemma newest_first_insert_by:
  fixes x :: "('n::linordered_idom, 'j) Project"
  assumes "sorted_wrt (\<lambda>a b. created_at b \<le> created_at a) xs"
  shows "sorted_wrt (\<lambda>a b. created_at b \<le> created_at a)
           (insert_by (\<lambda>a b. created_at b - created_at a) x xs)"
  using assms
proof (induction xs)
  case Nil
  then show ?case by simp
next
  case (Cons y ys)
  show ?case
  proof (cases "created_at y \<le> created_at x")
    case True
    with Cons.prems show ?thesis by (auto intro: order_trans)
  next
    case False
    with Cons show ?thesis by (auto simp: set_insert_by)
  qed
qed

lemma newest_first_array_sort:
  fixes xs :: "('n::linordered_idom, 'j) Project list"
  shows "sorted_wrt (\<lambda>a b. created_at b \<le> created_at a)
           (array_sort (\<lambda>a b. created_at b - created_at a) xs)"
  by (induction xs) (simp_all add: array_sort_def newest_first_insert_by)

text \<open>
  C8. After the projects list is loaded successfully from \<open>GET /api/projects\<close>, the
  stored \<open>projects\<close> array is in non-increasing order of \<open>created_at\<close> (newest project
  first) and holds exactly the projects the backend returned, each as often as it was
  returned.
\<close>

theorem projects_newest_first:
  fixes data :: "('n::linordered_idom, 'j) ProjectsData"
  assumes "ok status"
  shows "sorted_wrt (\<lambda>a b. created_at b \<le> created_at a)
           (pp_projects (ProjectsPage_run (loadProjects (Response status (Some data))) st))
       \<and> mset (pp_projects (ProjectsPage_run (loadProjects (Response status (Some data))) st)) =
           mset (projects data)"
  using assms
  by (simp add: loadProjects_def ProjectsPage_run_def run_simps newest_first_array_sort
      mset_array_sort)

theorem projects_newest_first_witness:
  "ok 200
   \<and> pp_projects (ProjectsPage_run
        (loadProjects (Response 200
           (Some \<lparr>projects = [project ''a'' 10, project ''b'' 30, project ''c'' 20]\<rparr>)))
        ProjectsPage_init) = [project ''b'' 30, project ''c'' 20, project ''a'' 10]
   \<and> sorted_wrt (\<lambda>a b. created_at b \<le> created_at a)
        (pp_projects (ProjectsPage_run
          (loadProjects (Response 200
             (Some \<lparr>projects = [project ''a'' 10, project ''b'' 30, project ''c'' 20]\<rparr>)))
          ProjectsPage_init))"
proof -
  have h: "ok 200" by (simp add: ok_def)
  show ?thesis
    using h projects_newest_first [OF h,
        of "\<lparr>projects = [project ''a'' 10, project ''b'' 30, project ''c'' 20]\<rparr>"
           "ProjectsPage_init :: (int, unit) ProjectsPage_state"]
    by (simp add: loadProjects_def ProjectsPage_run_def run_simps array_sort_def project_def
        ProjectsPage_init_def)
qed


section \<open>Folders of the file browser\<close>

text \<open>
  C9. \<open>toggleFolder\<close> is an involution on the set of expanded folders: toggling the
  same folder twice gives back the state there was, one toggle makes the folder a
  member exactly when it was not one, and the membership of every other folder is what
  it was.
\<close>

theorem toggleFolder_involution:
  "FileBrowser_run (toggleFolder folder (FileBrowser_run (toggleFolder folder st) st))
      (FileBrowser_run (toggleFolder folder st) st) = st
   \<and> (folder \<in> expandedFolders (FileBrowser_run (toggleFolder folder st) st)
        \<longleftrightarrow> folder \<notin> expandedFolders st)
   \<and> (\<forall>other. other \<noteq> folder \<longrightarrow>
        (other \<in> expandedFolders (FileBrowser_run (toggleFolder folder st) st)
           \<longleftrightarrow> other \<in> expandedFolders st))"
  by (auto simp: toggleFolder_def FileBrowser_run_def run_simps Let_def insert_absorb)

theorem toggleFolder_involution_witness:
  "''root'' \<noteq> ''backend''
   \<and> expandedFolders (FileBrowser_run (toggleFolder ''backend'' FileBrowser_init) FileBrowser_init)
       = {''root'', ''backend''}
   \<and> FileBrowser_run (toggleFolder ''backend''
        (FileBrowser_run (toggleFolder ''backend'' FileBrowser_init) FileBrowser_init))
        (FileBrowser_run (toggleFolder ''backend'' FileBrowser_init) FileBrowser_init)
       = FileBrowser_init
   \<and> ''root'' \<in> expandedFolders
        (FileBrowser_run (toggleFolder ''backend'' FileBrowser_init) FileBrowser_init)"
  using toggleFolder_involution [of "''backend''" FileBrowser_init]
  by (auto simp: toggleFolder_def FileBrowser_run_def run_simps Let_def FileBrowser_init_def)


section \<open>Loading the file list\<close>

lemma loadFiles_empty:
  "ok status \<Longrightarrow> loadFiles pid (Response status (Some [])) rc =
     [Fetch (GET (api @ ''/projects/'' @ pid @ ''/files'')), Set (SetFiles []),
      Set (SetLoading False)]"
  by (simp add: loadFiles_def)

lemma loadFiles_nonempty:
  "ok status \<Longrightarrow> loadFiles pid (Response status (Some (first # rest))) rc =
     [Fetch (GET (api @ ''/projects/'' @ pid @ ''/files'')),
      Set (SetFiles (first # rest)),
      Set (SetSelectedFile (Some (file_path first))),
      Set (SetFileContent ''Loading...''),
      Fetch (GET (api @ ''/projects/'' @ pid @ ''/files/'' @ file_path first)),
      Set (SetLoading False)] @ loadFileContent_resumed rc"
  by (simp add: loadFiles_def loadFileContent_called_def)

lemma loadFiles_empty_state:
  "ok status \<Longrightarrow>
   FileBrowser_run (loadFiles pid (Response status (Some [])) rc) st =
     st\<lparr>files := [], loading := False\<rparr>"
  by (simp add: loadFiles_empty FileBrowser_run_def run_simps)

lemma loadFiles_nonempty_pane:
  "ok status \<Longrightarrow> ok cstatus \<Longrightarrow> file_path first \<noteq> [] \<Longrightarrow>
   content_pane (FileBrowser_run
     (loadFiles pid (Response status (Some (first # rest))) (Response cstatus (Some d))) st) =
     FileView (file_path first) (content d)"
  by (simp add: loadFiles_nonempty FileBrowser_run_def run_simps loadFileContent_resumed_def
      content_pane_def)

text \<open>
  C10, as stated, fails for the empty list: \<open>loadFiles\<close> never clears the selection,
  and it runs again whenever \<open>projectId\<close> changes. A browser that shows a file of one
  project and then loads the empty file list of another keeps the old file selected
  and displayed, instead of the placeholder.
\<close>

theorem empty_list_keeps_previous_selection:
  "selectedFile browsing_state = Some ''backend/main.py''
   \<and> selectedFile (FileBrowser_run (loadFiles ''p2'' (Response 200 (Some [])) Rejected)
        browsing_state) = Some ''backend/main.py''
   \<and> content_pane (FileBrowser_run (loadFiles ''p2'' (Response 200 (Some [])) Rejected)
        browsing_state) = FileView ''backend/main.py'' ''print(1)''"
  by (simp add: browsing_state_eq loadFiles_def FileBrowser_run_def run_simps ok_def
      content_pane_def)

text \<open>
  C10, amended. After the file browser has loaded a project's file list successfully:
  if the list is not empty, its first file is selected and the content of that file is
  requested (and shown, once it arrives); if the list is empty, no content is requested
  and the selection is left as it was. A browser with no file selected, as it is when
  mounted, then has no file selected and shows \<open>Select a file to view its contents\<close>;
  a browser with a file selected keeps that file selected and displayed.
\<close>

theorem loadFiles_auto_selects_first:
  assumes "ok status"
  shows "(\<forall>first rest. data = first # rest \<longrightarrow>
            selectedFile (FileBrowser_run (loadFiles pid (Response status (Some data)) rc) st) =
              Some (file_path first)
          \<and> fetches (loadFiles pid (Response status (Some data)) rc) =
              [GET (api @ ''/projects/'' @ pid @ ''/files''),
               GET (api @ ''/projects/'' @ pid @ ''/files/'' @ file_path first)]
          \<and> (\<forall>cstatus d. ok cstatus \<longrightarrow>
               fileContent (FileBrowser_run
                 (loadFiles pid (Response status (Some data)) (Response cstatus (Some d))) st) =
                 content d
               \<and> (file_path first \<noteq> [] \<longrightarrow>
                    content_pane (FileBrowser_run
                      (loadFiles pid (Response status (Some data)) (Response cstatus (Some d)))
                      st) = FileView (file_path first) (content d))))
       \<and> (data = [] \<longrightarrow>
            FileBrowser_run (loadFiles pid (Response status (Some data)) rc) st =
              st\<lparr>files := [], loading := False\<rparr>
          \<and> selectedFile (FileBrowser_run (loadFiles pid (Response status (Some data)) rc) st) =
              selectedFile st
          \<and> fetches (loadFiles pid (Response status (Some data)) rc) =
              [GET (api @ ''/projects/'' @ pid @ ''/files'')]
          \<and> (selectedFile st = None \<longrightarrow>
               content_pane (FileBrowser_run (loadFiles pid (Response status (Some data)) rc) st) =
                 Message ''Select a file to view its contents'')
          \<and> (\<forall>p. selectedFile st = Some p \<and> p \<noteq> [] \<longrightarrow>
               content_pane (FileBrowser_run (loadFiles pid (Response status (Some data)) rc) st) =
                 FileView p (fileContent st)))"
proof (intro conjI allI impI)
  fix first rest
  assume d: "data = first # rest"
  show "selectedFile (FileBrowser_run (loadFiles pid (Response status (Some data)) rc) st) =
          Some (file_path first)"
    using assms d
    by (simp add: loadFiles_nonempty FileBrowser_run_def run_simps resumed_keeps_selection)
  show "fetches (loadFiles pid (Response status (Some data)) rc) =
          [GET (api @ ''/projects/'' @ pid @ ''/files''),
           GET (api @ ''/projects/'' @ pid @ ''/files/'' @ file_path first)]"
    using assms d by (simp add: loadFiles_nonempty resumed_quiet)
  fix cstatus d'
  assume c: "ok cstatus"
  then show "fileContent (FileBrowser_run
       (loadFiles pid (Response status (Some data)) (Response cstatus (Some d'))) st) = content d'"
    using assms d by (simp add: loadFiles_nonempty FileBrowser_run_def run_simps resumed_content)
  assume "file_path first \<noteq> []"
  then show "content_pane (FileBrowser_run
       (loadFiles pid (Response status (Some data)) (Response cstatus (Some d'))) st) =
       FileView (file_path first) (content d')"
    using assms c d by (simp add: loadFiles_nonempty_pane)
next
  assume d: "data = []"
  show "FileBrowser_run (loadFiles pid (Response status (Some data)) rc) st =
          st\<lparr>files := [], loading := False\<rparr>"
    using assms d by (simp add: loadFiles_empty_state)
  show "selectedFile (FileBrowser_run (loadFiles pid (Response status (Some data)) rc) st) =
          selectedFile st"
    using assms d by (simp add: loadFiles_empty_state)
  show "fetches (loadFiles pid (Response status (Some data)) rc) =
          [GET (api @ ''/projects/'' @ pid @ ''/files'')]"
    using assms d by (simp add: loadFiles_empty)
  {
    assume "selectedFile st = None"
    then show "content_pane (FileBrowser_run (loadFiles pid (Response status (Some data)) rc) st) =
          Message ''Select a file to view its contents''"
      using assms d by (simp add: loadFiles_empty_state content_pane_def)
  }
  fix p
  assume "selectedFile st = Some p \<and> p \<noteq> []"
  then show "content_pane (FileBrowser_run (loadFiles pid (Response status (Some data)) rc) st) =
          FileView p (fileContent st)"
    using assms d by (simp add: loadFiles_empty_state content_pane_def)
qed

theorem loadFiles_auto_selects_first_witness:
  "ok 200 \<and> ok 204 \<and> selectedFile FileBrowser_init = None
   \<and> selectedFile browsing_state = Some ''backend/main.py'' \<and> ''backend/main.py'' \<noteq> []
   \<and> file_path readme_md \<noteq> []
   \<and> selectedFile (FileBrowser_run
        (loadFiles ''p2'' (Response 200 (Some [readme_md, main_py]))
           (Response 204 (Some \<lparr>content = ''# Book''\<rparr>))) browsing_state) = Some ''README.md''
   \<and> content_pane (FileBrowser_run
        (loadFiles ''p2'' (Response 200 (Some [readme_md, main_py]))
           (Response 204 (Some \<lparr>content = ''# Book''\<rparr>))) browsing_state) =
       FileView ''README.md'' ''# Book''
   \<and> fetches (loadFiles ''p2'' (Response 200 (Some [readme_md, main_py]))
           (Response 204 (Some \<lparr>content = ''# Book''\<rparr>))) =
       [GET ''http://localhost:8000/api/projects/p2/files'',
        GET ''http://localhost:8000/api/projects/p2/files/README.md'']
   \<and> selectedFile (FileBrowser_run
        (loadFiles ''p1'' (Response 200 (Some [])) Rejected) FileBrowser_init) = None
   \<and> content_pane (FileBrowser_run
        (loadFiles ''p1'' (Response 200 (Some [])) Rejected) FileBrowser_init) =
       Message ''Select a file to view its contents''
   \<and> content_pane (FileBrowser_run
        (loadFiles ''p2'' (Response 200 (Some [])) Rejected) browsing_state) =
       FileView ''backend/main.py'' ''print(1)''"
proof -
  have h: "ok 200" and k: "ok 204" by (simp_all add: ok_def)
  have i: "selectedFile FileBrowser_init = None" by (simp add: FileBrowser_init_def)
  have j: "selectedFile browsing_state = Some ''backend/main.py''"
    "fileContent browsing_state = ''print(1)''"
    by (simp_all add: browsing_state_eq)
  have r: "file_path readme_md \<noteq> []" by (simp add: readme_md_def)
  note t = loadFiles_auto_selects_first [OF h, of "[readme_md, main_py]" "''p2''"
      "Response 204 (Some \<lparr>content = ''# Book''\<rparr>)" browsing_state]
  from t have "\<forall>cstatus d. ok cstatus \<longrightarrow> file_path readme_md \<noteq> [] \<longrightarrow>
      content_pane (FileBrowser_run
        (loadFiles ''p2'' (Response 200 (Some [readme_md, main_py])) (Response cstatus (Some d)))
        browsing_state) = FileView (file_path readme_md) (content d)"
    by simp
  with k r have pane: "content_pane (FileBrowser_run
        (loadFiles ''p2'' (Response 200 (Some [readme_md, main_py]))
           (Response 204 (Some \<lparr>content = ''# Book''\<rparr>))) browsing_state) =
      FileView (file_path readme_md) (content \<lparr>content = ''# Book''\<rparr>)"
    by blast
  from t have sel: "selectedFile (FileBrowser_run
        (loadFiles ''p2'' (Response 200 (Some [readme_md, main_py]))
           (Response 204 (Some \<lparr>content = ''# Book''\<rparr>))) browsing_state) =
        Some (file_path readme_md)"
    and req: "fetches (loadFiles ''p2'' (Response 200 (Some [readme_md, main_py]))
           (Response 204 (Some \<lparr>content = ''# Book''\<rparr>))) =
        [GET (api @ ''/projects/'' @ ''p2'' @ ''/files''),
         GET (api @ ''/projects/'' @ ''p2'' @ ''/files/'' @ file_path readme_md)]"
    by simp_all
  show ?thesis
    using h k i j r pane sel req
      loadFiles_auto_selects_first [OF h, of "[]" "''p1''" Rejected FileBrowser_init]
      loadFiles_auto_selects_first [OF h, of "[]" "''p2''" Rejected browsing_state]
    by (simp add: readme_md_def api_def content_pane_def FileBrowser_init_def browsing_state_eq)
qed

end
